theory Spec2Isabelle
  imports Main "HOL-Library.Multiset" "HOL-Library.Char_ord" "HOL-Library.List_Lexorder" "HOL-Library.Word"
begin

section \<open>Relations: the part of the Spark DataFrame API that \<open>test.py\<close> calls\<close>

text \<open>
  A cell is null, an integer or a string (the example data of \<open>test.py\<close> holds nothing
  else); \<open>BoolV\<close> is the value of a predicate column such as \<open>isNotNull()\<close>.
  A DataFrame is its ordered list of column names and its rows, each row holding one value
  per column, in column order. Column names are compared exactly. Row order is the order
  the model produces; Spark promises none, and no claim below depends on it.
\<close>

datatype val = Null | IntV int | StrV string | BoolV bool

record dataframe =
  columns :: "string list"
  rows :: "val list list"

text \<open>
  \<open>AnalysisException\<close> is what Spark raises, while the plan is built, for a column name
  that it cannot resolve or for a frame that unionByName cannot align.
  \<open>IndexError\<close> is Python's, for \<open>on[0]\<close> inside \<open>DataFrame.join\<close> when \<open>on\<close> is the
  empty list.
\<close>

datatype error = AnalysisException | IndexError


text \<open>The value of column \<open>c\<close> in row \<open>r\<close> of a frame with columns \<open>cols\<close>; null when the
  frame has no such column (the fill value of \<open>allowMissingColumns\<close>).\<close>

definition cell :: "string list \<Rightarrow> val list \<Rightarrow> string \<Rightarrow> val" where
  "cell cols r c = (case map_of (zip cols r) c of Some v \<Rightarrow> v | None \<Rightarrow> Null)"

definition project :: "string list \<Rightarrow> val list \<Rightarrow> string list \<Rightarrow> val list" where
  "project cols r cs = map (cell cols r) cs"

text \<open>\<open>df.select(*cs)\<close>: fails when a name is not a column of \<open>df\<close>.\<close>

definition select_df :: "dataframe \<Rightarrow> string list \<Rightarrow> error + dataframe" where
  "select_df df cs =
     (if list_all (\<lambda>c. c \<in> set (columns df)) cs
      then Inr \<lparr>columns = cs, rows = map (\<lambda>r. project (columns df) r cs) (rows df)\<rparr>
      else Inl AnalysisException)"

text \<open>\<open>df.distinct()\<close>.\<close>

definition distinct_df :: "dataframe \<Rightarrow> dataframe" where
  "distinct_df df = df\<lparr>rows := remdups (rows df)\<rparr>"

text \<open>
  The join condition of \<open>join(other, on=names)\<close> is the conjunction of \<open>left.k = right.k\<close>
  over the names. SQL equality is true only between two equal values that are both not
  null, so a key with a null in it matches no key, not even itself.
\<close>

definition sql_eq :: "val \<Rightarrow> val \<Rightarrow> bool" where
  "sql_eq a b = (a \<noteq> Null \<and> b \<noteq> Null \<and> a = b)"

definition keys_match :: "val list \<Rightarrow> val list \<Rightarrow> bool" where
  "keys_match k1 k2 = list_all2 sql_eq k1 k2"

definition key_of :: "dataframe \<Rightarrow> string list \<Rightarrow> val list \<Rightarrow> val list" where
  "key_of df key_cols r = project (columns df) r key_cols"

definition keys_of :: "dataframe \<Rightarrow> string list \<Rightarrow> val list list" where
  "keys_of df key_cols = map (key_of df key_cols) (rows df)"

text \<open>The columns of a join on names: the join columns first, then the other columns of the
  left side (a left anti join keeps nothing of the right side).\<close>

definition using_columns :: "string list \<Rightarrow> string list \<Rightarrow> string list" where
  "using_columns on cols = on @ filter (\<lambda>c. c \<notin> set on) cols"

text \<open>\<open>left.join(right, on=on, how="left_anti")\<close>: the rows of \<open>left\<close> that no row of
  \<open>right\<close> matches.\<close>

definition join_left_anti :: "dataframe \<Rightarrow> dataframe \<Rightarrow> string list \<Rightarrow> error + dataframe" where
  "join_left_anti left right on =
     (if on = [] then Inl IndexError
      else if \<not> (list_all (\<lambda>c. c \<in> set (columns left)) on \<and> list_all (\<lambda>c. c \<in> set (columns right)) on)
      then Inl AnalysisException
      else Inr \<lparr>columns = using_columns on (columns left),
                rows = map (\<lambda>x. project (columns left) x (using_columns on (columns left)))
                         (filter (\<lambda>x. \<not> list_ex (\<lambda>y. keys_match (key_of left on x) (key_of right on y)) (rows right))
                            (rows left))\<rparr>)"

text \<open>\<open>df.unionByName(other, allowMissingColumns=True)\<close>: the columns of \<open>df\<close>, then the
  columns only \<open>other\<close> has; rows aligned by name, null where a side lacks the column.\<close>

definition unionByName :: "dataframe \<Rightarrow> dataframe \<Rightarrow> error + dataframe" where
  "unionByName df other =
     (if \<not> distinct (columns df) \<or> \<not> distinct (columns other) then Inl AnalysisException
      else let cs = columns df @ filter (\<lambda>c. c \<notin> set (columns df)) (columns other)
           in Inr \<lparr>columns = cs,
                   rows = map (\<lambda>r. project (columns df) r cs) (rows df)
                        @ map (\<lambda>r. project (columns other) r cs) (rows other)\<rparr>)"

section \<open>\<open>scd_type1_full_replace\<close>\<close>

definition scd_type1_full_replace :: "dataframe \<Rightarrow> dataframe \<Rightarrow> string list \<Rightarrow> error + dataframe" where
  "scd_type1_full_replace source target key_cols =
     (case select_df source key_cols of
        Inl e \<Rightarrow> Inl e
      | Inr selected \<Rightarrow>
          let src_keys = distinct_df selected in
          (case join_left_anti target src_keys key_cols of
             Inl e \<Rightarrow> Inl e
           | Inr unchanged_target \<Rightarrow> unionByName source unchanged_target))"

text \<open>For stating what the result holds: the merged column list, and the target rows
  that survive the anti join. A target row survives when its key equals no key of
  \<open>source\<close> under SQL equality, that is, when its key holds a null or is not a key of
  \<open>source\<close>.\<close>

definition merged_columns :: "dataframe \<Rightarrow> dataframe \<Rightarrow> string list" where
  "merged_columns source target =
     columns source @ filter (\<lambda>c. c \<notin> set (columns source)) (columns target)"

definition survives :: "dataframe \<Rightarrow> dataframe \<Rightarrow> string list \<Rightarrow> val list \<Rightarrow> bool" where
  "survives source target key_cols x =
     (Null \<in> set (key_of target key_cols x) \<or> key_of target key_cols x \<notin> set (keys_of source key_cols))"

section \<open>\<open>scd_type1_column_level\<close>\<close>

text \<open>
  The result of \<open>t.join(s, on=key_cols, how="fullouter")\<close> with \<open>t = target.alias("t")\<close> and
  \<open>s = source.alias("s")\<close>, as far as the qualified names \<open>t.c\<close> and \<open>s.c\<close> see it: a list
  of pairs (row of the t side, row of the s side), the side without a matching row being
  all null.
\<close>

record joined =
  t_columns :: "string list"
  s_columns :: "string list"
  pairs :: "(val list \<times> val list) list"

definition null_row :: "string list \<Rightarrow> val list" where
  "null_row cols = replicate (length cols) Null"

definition fullouter_pairs :: "dataframe \<Rightarrow> dataframe \<Rightarrow> string list \<Rightarrow> (val list \<times> val list) list" where
  "fullouter_pairs t s on =
     concat (map (\<lambda>x. let ms = filter (\<lambda>y. keys_match (key_of t on x) (key_of s on y)) (rows s)
                       in if ms = [] then [(x, null_row (columns s))] else map (\<lambda>y. (x, y)) ms)
               (rows t))
     @ map (\<lambda>y. (null_row (columns t), y))
         (filter (\<lambda>y. \<not> list_ex (\<lambda>x. keys_match (key_of t on x) (key_of s on y)) (rows t)) (rows s))"

definition join_fullouter :: "dataframe \<Rightarrow> dataframe \<Rightarrow> string list \<Rightarrow> error + joined" where
  "join_fullouter t s on =
     (if on = [] then Inl IndexError
      else if \<not> (list_all (\<lambda>c. c \<in> set (columns t)) on \<and> list_all (\<lambda>c. c \<in> set (columns s)) on)
      then Inl AnalysisException
      else Inr \<lparr>t_columns = columns t, s_columns = columns s, pairs = fullouter_pairs t s on\<rparr>)"

text \<open>Column expressions, as \<open>pyspark.sql.functions\<close> builds them: \<open>F.col("s.c")\<close> is
  \<open>Col Qs c\<close>, \<open>F.coalesce(a, b)\<close>, \<open>a.isNotNull()\<close>, \<open>F.when(p, a).otherwise(b)\<close>.\<close>

datatype qualifier = Qt | Qs

datatype column =
    Col qualifier string
  | Coalesce column column
  | IsNotNull column
  | WhenOtherwise column column column

fun resolves :: "joined \<Rightarrow> column \<Rightarrow> bool" where
  "resolves j (Col Qt c) = (c \<in> set (t_columns j))"
| "resolves j (Col Qs c) = (c \<in> set (s_columns j))"
| "resolves j (Coalesce a b) = (resolves j a \<and> resolves j b)"
| "resolves j (IsNotNull a) = resolves j a"
| "resolves j (WhenOtherwise p a b) = (resolves j p \<and> resolves j a \<and> resolves j b)"

fun eval_column :: "joined \<Rightarrow> val list \<times> val list \<Rightarrow> column \<Rightarrow> val" where
  "eval_column j (tr, sr) (Col Qt c) = cell (t_columns j) tr c"
| "eval_column j (tr, sr) (Col Qs c) = cell (s_columns j) sr c"
| "eval_column j p (Coalesce a b) =
     (if eval_column j p a \<noteq> Null then eval_column j p a else eval_column j p b)"
| "eval_column j p (IsNotNull a) = BoolV (eval_column j p a \<noteq> Null)"
| "eval_column j p (WhenOtherwise c a b) =
     (if eval_column j p c = BoolV True then eval_column j p a else eval_column j p b)"

text \<open>\<open>joined.select(*select_expr)\<close>, each expression with its \<open>.alias(name)\<close>.\<close>

definition select_joined :: "joined \<Rightarrow> (column \<times> string) list \<Rightarrow> error + dataframe" where
  "select_joined j select_expr =
     (if list_all (\<lambda>e. resolves j (fst e)) select_expr
      then Inr \<lparr>columns = map snd select_expr,
                rows = map (\<lambda>p. map (\<lambda>e. eval_column j p (fst e)) select_expr) (pairs j)\<rparr>
      else Inl AnalysisException)"

text \<open>\<open>sorted(c for c in all_cols if c not in key_cols)\<close>, restricted to \<open>update_cols\<close> when
  that is given and not empty (\<open>if update_cols:\<close>).\<close>

definition data_cols :: "dataframe \<Rightarrow> dataframe \<Rightarrow> string list \<Rightarrow> string list option \<Rightarrow> string list" where
  "data_cols source target key_cols update_cols =
     (let all_cols = remdups (columns target @ columns source);
          dc = sort (filter (\<lambda>c. c \<notin> set key_cols) all_cols)
      in case update_cols of
           None \<Rightarrow> dc
         | Some ucs \<Rightarrow> if ucs = [] then dc else filter (\<lambda>c. c \<in> set ucs) dc)"

definition chosen :: "string list \<Rightarrow> bool \<Rightarrow> string \<Rightarrow> column" where
  "chosen key_cols prefer_source_when_null c =
     (let s_col = Col Qs c; t_col = Col Qt c
      in if prefer_source_when_null
         then (let presence_cond = IsNotNull (Col Qs (hd key_cols))
               in WhenOtherwise presence_cond s_col t_col)
         else WhenOtherwise (IsNotNull s_col) s_col t_col)"

definition select_expr_of :: "string list \<Rightarrow> string list \<Rightarrow> bool \<Rightarrow> (column \<times> string) list" where
  "select_expr_of key_cols dcs prefer_source_when_null =
     map (\<lambda>k. (Coalesce (Col Qs k) (Col Qt k), k)) key_cols
     @ map (\<lambda>c. (chosen key_cols prefer_source_when_null c, c)) dcs"

definition scd_type1_column_level ::
  "dataframe \<Rightarrow> dataframe \<Rightarrow> string list \<Rightarrow> string list option \<Rightarrow> bool \<Rightarrow> error + dataframe" where
  "scd_type1_column_level source target key_cols update_cols prefer_source_when_null =
     (let dcs = data_cols source target key_cols update_cols
      in case join_fullouter target source key_cols of
           Inl e \<Rightarrow> Inl e
         | Inr j \<Rightarrow> select_joined j (select_expr_of key_cols dcs prefer_source_when_null))"

text \<open>For stating the column-level claims: the value a joined pair holds for column \<open>c\<close> on
  its source side and on its target side (null on a side that has no row for the key).\<close>

definition src_value :: "dataframe \<Rightarrow> val list \<times> val list \<Rightarrow> string \<Rightarrow> val" where
  "src_value source pr c = cell (columns source) (snd pr) c"

definition tgt_value :: "dataframe \<Rightarrow> val list \<times> val list \<Rightarrow> string \<Rightarrow> val" where
  "tgt_value target pr c = cell (columns target) (fst pr) c"

text \<open>The key a joined pair gets in the output: \<open>coalesce(s.k, t.k)\<close> for each key column.\<close>

definition coalesced_key :: "dataframe \<Rightarrow> dataframe \<Rightarrow> string list \<Rightarrow> val list \<times> val list \<Rightarrow> val list" where
  "coalesced_key source target key_cols pr =
     map (\<lambda>k. if src_value source pr k \<noteq> Null then src_value source pr k else tgt_value target pr k) key_cols"

section \<open>The audit columns of \<open>scripts/utils.py\<close> and \<open>scripts/ingest.py\<close>\<close>

text \<open>
  A pandas DataFrame: column labels and rows, a cell being an integer, a string or the
  missing value NaN. \<open>py_str\<close> is Python's \<open>str\<close> on such a cell.
\<close>

datatype pd_val = PyInt int | PyStr string | PyNaN

record pandas_df =
  pd_columns :: "string list"
  pd_rows :: "pd_val list list"

fun str_nat :: "nat \<Rightarrow> string" where
  "str_nat n = (if n < 10 then [''0123456789'' ! n]
                else str_nat (n div 10) @ [''0123456789'' ! (n mod 10)])"

declare str_nat.simps [simp del]

definition str_int :: "int \<Rightarrow> string" where
  "str_int i = (if i < 0 then ''-'' @ str_nat (nat (- i)) else str_nat (nat i))"

fun py_str :: "pd_val \<Rightarrow> string" where
  "py_str (PyInt i) = str_int i"
| "py_str (PyStr s) = s"
| "py_str PyNaN = ''nan''"

text \<open>\<open>sep.join(xs)\<close>.\<close>

fun join_str :: "string \<Rightarrow> string list \<Rightarrow> string" where
  "join_str sep [] = []"
| "join_str sep [x] = x"
| "join_str sep (x # y # ys) = x @ sep @ join_str sep (y # ys)"

text \<open>\<open>hexdigest()\<close>: the 64 lower-case hexadecimal digits of a 256-bit digest.\<close>

definition hexdigest :: "256 word \<Rightarrow> string" where
  "hexdigest w = map (\<lambda>i. ''0123456789abcdef'' ! unat (take_bit 4 (drop_bit (4 * i) w))) (rev [0..<64])"

text \<open>
  \<open>row_hash\<close> of \<open>utils.py\<close> and \<open>record_hash\<close> of \<open>ingest.py\<close> have the same body. SHA-256
  itself is \<open>hashlib\<close>'s; it is the parameter \<open>sha256\<close>, a function from byte strings
  to 256-bit digests. The strings of the model are byte strings, so \<open>encode('utf-8')\<close>
  changes nothing.
\<close>

definition row_hash :: "(string \<Rightarrow> 256 word) \<Rightarrow> pd_val list \<Rightarrow> string" where
  "row_hash sha256 row = (let joined_str = join_str ''|'' (map py_str row) in hexdigest (sha256 joined_str))"

definition record_hash :: "(string \<Rightarrow> 256 word) \<Rightarrow> pd_val list \<Rightarrow> string" where
  "record_hash sha256 row = (let joined_str = join_str ''|'' (map py_str row) in hexdigest (sha256 joined_str))"

text \<open>\<open>df[c] = values\<close>: an existing column is overwritten in place, a new one is appended.
  \<open>df[c] = v\<close> with a scalar gives every row the value \<open>v\<close>.\<close>

definition setitem :: "pandas_df \<Rightarrow> string \<Rightarrow> pd_val list \<Rightarrow> pandas_df" where
  "setitem df c vs =
     (if c \<in> set (pd_columns df)
      then df\<lparr>pd_rows := map (\<lambda>(r, v). r[length (takeWhile (\<lambda>x. x \<noteq> c) (pd_columns df)) := v])
                               (zip (pd_rows df) vs)\<rparr>
      else df\<lparr>pd_columns := pd_columns df @ [c],
               pd_rows := map (\<lambda>(r, v). r @ [v]) (zip (pd_rows df) vs)\<rparr>)"

definition setitem_scalar :: "pandas_df \<Rightarrow> string \<Rightarrow> pd_val \<Rightarrow> pandas_df" where
  "setitem_scalar df c v = setitem df c (replicate (length (pd_rows df)) v)"

text \<open>
  Objects live in a heap, a list of frames addressed by position, so that a frame the
  caller still holds can be told from the one the function works on. \<open>df.copy()\<close>
  allocates a new frame with the same content. \<open>now\<close> is the value of
  \<open>datetime.utcnow().isoformat()\<close> at the call.
\<close>

type_synonym heap = "pandas_df list"

definition copy_df :: "heap \<Rightarrow> nat \<Rightarrow> heap \<times> nat" where
  "copy_df h a = (h @ [h ! a], length h)"

definition update_at :: "heap \<Rightarrow> nat \<Rightarrow> (pandas_df \<Rightarrow> pandas_df) \<Rightarrow> heap" where
  "update_at h a f = h[a := f (h ! a)]"

definition add_audit_columns ::
  "(string \<Rightarrow> 256 word) \<Rightarrow> string \<Rightarrow> heap \<Rightarrow> nat \<Rightarrow> string \<Rightarrow> heap \<times> nat" where
  "add_audit_columns sha256 now h df source_file =
     (let (h1, df1) = copy_df h df;
          h2 = update_at h1 df1 (\<lambda>d. setitem_scalar d ''ingest_ts'' (PyStr now));
          h3 = update_at h2 df1 (\<lambda>d. setitem_scalar d ''source_file'' (PyStr source_file));
          hashes = map (\<lambda>row. PyStr (row_hash sha256 row)) (pd_rows (h3 ! df1));
          h4 = update_at h3 df1 (\<lambda>d. setitem d ''record_hash'' hashes)
      in (h4, df1))"

text \<open>The frame \<open>load_csv_to_staging\<close> and \<open>load_json_to_staging\<close> build from the frame
  they have read, before they insert its rows: the same three assignments, on the frame
  itself, with \<open>local_path.name\<close> as the source file.\<close>

definition staging_frame :: "(string \<Rightarrow> 256 word) \<Rightarrow> string \<Rightarrow> pandas_df \<Rightarrow> string \<Rightarrow> pandas_df" where
  "staging_frame sha256 now df name =
     (let df1 = setitem_scalar df ''ingest_ts'' (PyStr now);
          df2 = setitem_scalar df1 ''source_file'' (PyStr name)
      in setitem df2 ''record_hash'' (map (\<lambda>row. PyStr (record_hash sha256 row)) (pd_rows df2)))"

text \<open>The frame of \<open>tests/test_utils.py\<close>.\<close>

definition test_df :: pandas_df where
  "test_df = \<lparr>pd_columns = [''a'', ''b''], pd_rows = [[PyInt 1, PyStr ''x''], [PyInt 2, PyStr ''y'']]\<rparr>"


section \<open>The example data of \<open>main\<close>\<close>

definition schema_ex :: "string list" where
  "schema_ex = [''id'', ''name'', ''age'', ''state'']"

definition tgt_df :: dataframe where
  "tgt_df = \<lparr>columns = schema_ex,
            rows = [[IntV 1, StrV ''Alice'', IntV 30, StrV ''NY''],
                    [IntV 2, StrV ''Bob'', IntV 25, StrV ''CA''],
                    [IntV 3, StrV ''Charlie'', IntV 40, StrV ''TX'']]\<rparr>"

definition src_df :: dataframe where
  "src_df = \<lparr>columns = schema_ex,
            rows = [[IntV 2, StrV ''Bobby'', IntV 26, Null],
                    [IntV 4, StrV ''Diana'', IntV 22, StrV ''WA'']]\<rparr>"

definition null_key_source :: dataframe where
  "null_key_source = \<lparr>columns = [''id'', ''name''], rows = [[Null, StrV ''s'']]\<rparr>"


definition no_rows :: dataframe where
  "no_rows = \<lparr>columns = [''id'', ''name''], rows = []\<rparr>"



definition bob_tgt :: dataframe where
  "bob_tgt = \<lparr>columns = [''id'', ''name'', ''state''], rows = [[IntV 1, StrV ''Bob'', StrV ''CA'']]\<rparr>"

definition bobby_src :: dataframe where
  "bobby_src = \<lparr>columns = [''id'', ''name'', ''state''], rows = [[IntV 1, StrV ''Bobby'', Null]]\<rparr>"


definition null_key_target :: dataframe where
  "null_key_target = \<lparr>columns = [''id'', ''name''], rows = [[Null, StrV ''t'']]\<rparr>"

definition default_out :: dataframe where
  "default_out = \<lparr>columns = [''id'', ''age'', ''name'', ''state''],
       rows = [[IntV 1, IntV 30, StrV ''Alice'', StrV ''NY''],
               [IntV 2, IntV 26, StrV ''Bobby'', StrV ''CA''],
               [IntV 3, IntV 40, StrV ''Charlie'', StrV ''TX''],
               [IntV 4, IntV 22, StrV ''Diana'', StrV ''WA'']]\<rparr>"

definition override_out :: dataframe where
  "override_out = \<lparr>columns = [''id'', ''age'', ''name'', ''state''],
       rows = [[IntV 1, IntV 30, StrV ''Alice'', StrV ''NY''],
               [IntV 2, IntV 26, StrV ''Bobby'', Null],
               [IntV 3, IntV 40, StrV ''Charlie'', StrV ''TX''],
               [IntV 4, IntV 22, StrV ''Diana'', StrV ''WA'']]\<rparr>"



section \<open>Facts about cells, projections and keys\<close>

lemmas frame_ops = select_df_def distinct_df_def join_left_anti_def unionByName_def
  project_def cell_def using_columns_def key_of_def keys_of_def keys_match_def sql_eq_def

lemma cell_notin: "c \<notin> set cols \<Longrightarrow> cell cols r c = Null"
proof -
  assume "c \<notin> set cols"
  then have "map_of (zip cols r) c = None"
    by (auto simp: map_of_eq_None_iff dest: set_zip_leftD)
  then show ?thesis by (simp add: cell_def)
qed

lemma cell_map: "cell cs (map f cs) c = (if c \<in> set cs then f c else Null)"
  by (simp add: cell_def map_of_zip_map)


lemma length_project: "length (project cols r cs) = length cs"
  by (simp add: project_def)

lemma project_project:
  assumes "\<And>c. c \<in> set ds \<Longrightarrow> c \<notin> set cs \<Longrightarrow> cell cols r c = Null"
  shows "project cs (project cols r cs) ds = project cols r ds"
  using assms by (simp add: project_def cell_map)

lemma project_project_subset:
  "set ds \<subseteq> set cs \<Longrightarrow> project cs (project cols r cs) ds = project cols r ds"
  by (rule project_project) auto


lemma keys_match_iff: "keys_match k1 k2 = (k1 = k2 \<and> Null \<notin> set k1)"
  unfolding keys_match_def
proof (induction k1 arbitrary: k2)
  case Nil
  then show ?case by auto
next
  case (Cons a k1)
  then show ?case by (cases k2) (auto simp: sql_eq_def)
qed

lemma set_using_columns: "set on \<subseteq> set cols \<Longrightarrow> set (using_columns on cols) = set cols"
  by (auto simp: using_columns_def)

lemma distinct_using_columns: "distinct on \<Longrightarrow> distinct cols \<Longrightarrow> distinct (using_columns on cols)"
  by (auto simp: using_columns_def)

lemma distinct_merged_columns:
  "distinct (columns source) \<Longrightarrow> distinct (columns target) \<Longrightarrow> distinct (merged_columns source target)"
  by (auto simp: merged_columns_def)

lemma merged_using:
  assumes "set K \<subseteq> set (columns source)"
  shows "columns source @ filter (\<lambda>c. c \<notin> set (columns source)) (using_columns K (columns target))
         = merged_columns source target"
proof -
  have "filter (\<lambda>c. c \<notin> set (columns source)) K = []"
    using assms by (auto simp: filter_empty_conv)
  moreover have "filter (\<lambda>c. c \<notin> set (columns source)) (filter (\<lambda>c. c \<notin> set K) (columns target))
        = filter (\<lambda>c. c \<notin> set (columns source)) (columns target)"
    using assms by (auto intro: filter_cong)
  ultimately show ?thesis by (simp add: using_columns_def merged_columns_def)
qed

lemma src_key_exists:
  "list_ex (\<lambda>y. keys_match (key_of target K x) (key_of \<lparr>columns = K, rows = ys\<rparr> K y))
     (remdups (map (\<lambda>r. project (columns source) r K) (rows source)))
   = (\<not> survives source target K x)"
proof -
  have "key_of \<lparr>columns = K, rows = ys\<rparr> K (project (columns source) r K) = key_of source K r" for r
    by (simp add: key_of_def project_project_subset)
  then show ?thesis
    by (auto simp: list_ex_iff keys_match_iff survives_def keys_of_def)
qed

lemma full_replace_eq:
  assumes K: "key_cols \<noteq> []" "distinct key_cols"
      and KS: "set key_cols \<subseteq> set (columns source)" and KT: "set key_cols \<subseteq> set (columns target)"
      and DS: "distinct (columns source)" and DT: "distinct (columns target)"
  shows "scd_type1_full_replace source target key_cols =
           Inr \<lparr>columns = merged_columns source target,
                rows = map (\<lambda>r. project (columns source) r (merged_columns source target)) (rows source)
                     @ map (\<lambda>x. project (columns target) x (merged_columns source target))
                         (filter (survives source target key_cols) (rows target))\<rparr>"
proof -
  let ?sel = "\<lparr>columns = key_cols, rows = map (\<lambda>r. project (columns source) r key_cols) (rows source)\<rparr>"
  let ?U = "\<lparr>columns = using_columns key_cols (columns target),
             rows = map (\<lambda>x. project (columns target) x (using_columns key_cols (columns target)))
                      (filter (survives source target key_cols) (rows target))\<rparr>"
  have sel: "select_df source key_cols = Inr ?sel"
    using KS by (auto simp: select_df_def list_all_iff)
  have anti: "join_left_anti target (distinct_df ?sel) key_cols = Inr ?U"
    using K KT by (auto simp: join_left_anti_def distinct_df_def list_all_iff src_key_exists subset_iff)
  have reproj: "project (using_columns key_cols (columns target))
                  (project (columns target) x (using_columns key_cols (columns target))) cs
                = project (columns target) x cs" for x cs
    by (rule project_project) (simp add: set_using_columns[OF KT] cell_notin)
  have un: "unionByName source ?U =
           Inr \<lparr>columns = merged_columns source target,
                rows = map (\<lambda>r. project (columns source) r (merged_columns source target)) (rows source)
                     @ map (\<lambda>x. project (columns target) x (merged_columns source target))
                         (filter (survives source target key_cols) (rows target))\<rparr>"
    using DS DT K(2) by (simp add: unionByName_def Let_def distinct_using_columns merged_using[OF KS] reproj o_def)
  show ?thesis
    by (simp add: scd_type1_full_replace_def sel anti un)
qed



lemma merged_columns_superset: "set (columns source) \<subseteq> set (merged_columns source target)"
  by (auto simp: merged_columns_def)

lemma set_merged_columns: "set (merged_columns source target) = set (columns source) \<union> set (columns target)"
  by (auto simp: merged_columns_def)


section \<open>Full replace: what the result holds\<close>





lemma merged_columns_idem:
  "merged_columns source \<lparr>columns = merged_columns source target, rows = rs\<rparr> = merged_columns source target"
  by (simp add: merged_columns_def)

lemma filter_survives_again:
  assumes KS: "set key_cols \<subseteq> set (columns source)" and KT: "set key_cols \<subseteq> set (columns target)"
      and NN: "list_all (\<lambda>k. Null \<notin> set k) (keys_of source key_cols)"
  shows "filter (survives source \<lparr>columns = merged_columns source target, rows = rs\<rparr> key_cols)
           (map (\<lambda>r. project (columns source) r (merged_columns source target)) (rows source)
            @ map (\<lambda>x. project (columns target) x (merged_columns source target))
                (filter (survives source target key_cols) (rows target)))
         = map (\<lambda>x. project (columns target) x (merged_columns source target))
             (filter (survives source target key_cols) (rows target))"
proof -
  let ?m = "merged_columns source target"
  let ?R = "\<lparr>columns = ?m, rows = rs\<rparr>"
  have Km: "set key_cols \<subseteq> set ?m"
    using KS by (auto simp: set_merged_columns)
  have ks: "key_of ?R key_cols (project (columns source) r ?m) = key_of source key_cols r" for r
    by (simp add: key_of_def project_project_subset[OF Km])
  have kt: "key_of ?R key_cols (project (columns target) x ?m) = key_of target key_cols x" for x
    by (simp add: key_of_def project_project_subset[OF Km])
  have src: "filter (survives source ?R key_cols) (map (\<lambda>r. project (columns source) r ?m) (rows source)) = []"
    using NN by (auto simp: filter_empty_conv survives_def ks keys_of_def list_all_iff)
  have tgt: "filter (survives source ?R key_cols)
               (map (\<lambda>x. project (columns target) x ?m) (filter (survives source target key_cols) (rows target)))
             = map (\<lambda>x. project (columns target) x ?m) (filter (survives source target key_cols) (rows target))"
    by (auto simp: filter_id_conv survives_def kt)
  show ?thesis by (simp add: src tgt)
qed

text \<open>
  Claim C7, as the code has it. Under the conditions of C1, and when no key of source holds a
  null, merging source into the result of merging source into target gives that result
  again: the same columns and the same rows as a multiset.
\<close>

theorem full_replace_idempotent:
  assumes K: "key_cols \<noteq> []" "distinct key_cols"
      and KS: "set key_cols \<subseteq> set (columns source)" and KT: "set key_cols \<subseteq> set (columns target)"
      and DS: "distinct (columns source)" and DT: "distinct (columns target)"
      and NN: "list_all (\<lambda>k. Null \<notin> set k) (keys_of source key_cols)"
  shows "\<exists>out out'. scd_type1_full_replace source target key_cols = Inr out
           \<and> scd_type1_full_replace source out key_cols = Inr out'
           \<and> columns out' = columns out
           \<and> mset (rows out') = mset (rows out)"
proof -
  let ?m = "merged_columns source target"
  let ?rs = "map (\<lambda>r. project (columns source) r ?m) (rows source)
           @ map (\<lambda>x. project (columns target) x ?m) (filter (survives source target key_cols) (rows target))"
  let ?out = "\<lparr>columns = ?m, rows = ?rs\<rparr>"
  have first: "scd_type1_full_replace source target key_cols = Inr ?out"
    by (rule full_replace_eq[OF K KS KT DS DT])
  have Km: "set key_cols \<subseteq> set (columns ?out)"
    using KS by (auto simp: set_merged_columns)
  have Dm: "distinct (columns ?out)"
    using DS DT by (simp add: distinct_merged_columns)
  have again: "project ?m (project (columns target) x ?m) ?m = project (columns target) x ?m" for x
    by (rule project_project_subset) simp
  have kept: "filter (survives source ?out key_cols) (rows ?out)
                = map (\<lambda>x. project (columns target) x ?m) (filter (survives source target key_cols) (rows target))"
    using filter_survives_again[OF KS KT NN] by simp
  have mm: "merged_columns source ?out = ?m"
    by (rule merged_columns_idem)
  have second: "scd_type1_full_replace source ?out key_cols = Inr ?out"
    unfolding full_replace_eq[OF K KS Km DS Dm] kept mm
    by (simp add: again o_def)
  show ?thesis
    by (intro exI[of _ ?out] conjI) (simp_all add: first second)
qed


theorem full_replace_idempotent_witness:
  "[''id''] \<noteq> [] \<and> distinct [''id''] \<and> set [''id''] \<subseteq> set (columns src_df)
   \<and> set [''id''] \<subseteq> set (columns tgt_df) \<and> distinct (columns src_df) \<and> distinct (columns tgt_df)
   \<and> list_all (\<lambda>k. Null \<notin> set k) (keys_of src_df [''id''])
   \<and> (\<exists>out out'. scd_type1_full_replace src_df tgt_df [''id''] = Inr out
          \<and> scd_type1_full_replace src_df out [''id''] = Inr out'
          \<and> columns out' = columns out
          \<and> mset (rows out') = mset (rows out))"
proof -
  have h: "[''id''] \<noteq> []" "distinct [''id'']" "set [''id''] \<subseteq> set (columns src_df)"
    "set [''id''] \<subseteq> set (columns tgt_df)" "distinct (columns src_df)" "distinct (columns tgt_df)"
    "list_all (\<lambda>k. Null \<notin> set k) (keys_of src_df [''id''])"
    by (simp_all add: frame_ops src_df_def tgt_df_def schema_ex_def)
  show ?thesis using h full_replace_idempotent[OF h] by blast
qed

text \<open>
  With a null key in source the second merge adds the source row once more: the anti join
  does not remove the copy the first merge put into the target.
\<close>

theorem full_replace_not_idempotent_null_key:
  "scd_type1_full_replace null_key_source no_rows [''id''] = Inr null_key_source
   \<and> scd_type1_full_replace null_key_source null_key_source [''id'']
       = Inr \<lparr>columns = [''id'', ''name''], rows = [[Null, StrV ''s''], [Null, StrV ''s'']]\<rparr>
   \<and> mset [[Null, StrV ''s''], [Null, StrV ''s'']] \<noteq> mset (rows null_key_source)"
  by (simp add: scd_type1_full_replace_def frame_ops null_key_source_def no_rows_def)




section \<open>A key column that is missing\<close>



section \<open>Facts about the column-level merge\<close>

lemma cell_append_map:
  "cell (ks @ ds) (map f ks @ map g ds) c
     = (if c \<in> set ks then f c else if c \<in> set ds then g c else Null)"
  by (simp add: cell_def map_of_zip_map map_add_def)

lemma data_cols_not_key: "c \<in> set (data_cols source target key_cols update_cols) \<Longrightarrow> c \<notin> set key_cols"
  by (auto simp: data_cols_def Let_def split: option.splits if_splits)

lemma column_level_InrD:
  assumes "scd_type1_column_level source target key_cols update_cols p = Inr out"
  shows "key_cols \<noteq> []"
    and "set key_cols \<subseteq> set (columns target)" and "set key_cols \<subseteq> set (columns source)"
    and "out = \<lparr>columns = key_cols @ data_cols source target key_cols update_cols,
                 rows = map (\<lambda>pr. map (\<lambda>k. eval_column \<lparr>t_columns = columns target, s_columns = columns source,
                                                        pairs = fullouter_pairs target source key_cols\<rparr> pr
                                                 (Coalesce (Col Qs k) (Col Qt k))) key_cols
                                @ map (\<lambda>c. eval_column \<lparr>t_columns = columns target, s_columns = columns source,
                                                        pairs = fullouter_pairs target source key_cols\<rparr> pr
                                                 (chosen key_cols p c))
                                    (data_cols source target key_cols update_cols))
                          (fullouter_pairs target source key_cols)\<rparr>"
  using assms
  by (auto simp: scd_type1_column_level_def join_fullouter_def select_joined_def select_expr_of_def
      list_all_iff o_def Let_def split: if_splits sum.splits)

lemma column_level_rows:
  assumes "scd_type1_column_level source target key_cols update_cols p = Inr out"
  shows "columns out = key_cols @ data_cols source target key_cols update_cols"
    and "length (rows out) = length (fullouter_pairs target source key_cols)"
    and "i < length (rows out) \<Longrightarrow> k \<in> set key_cols \<Longrightarrow>
           cell (columns out) (rows out ! i) k
             = (if src_value source (fullouter_pairs target source key_cols ! i) k \<noteq> Null
                then src_value source (fullouter_pairs target source key_cols ! i) k
                else tgt_value target (fullouter_pairs target source key_cols ! i) k)"
    and "i < length (rows out) \<Longrightarrow> c \<in> set (data_cols source target key_cols update_cols) \<Longrightarrow>
           cell (columns out) (rows out ! i) c
             = (if (if p then src_value source (fullouter_pairs target source key_cols ! i) (hd key_cols)
                    else src_value source (fullouter_pairs target source key_cols ! i) c) \<noteq> Null
                then src_value source (fullouter_pairs target source key_cols ! i) c
                else tgt_value target (fullouter_pairs target source key_cols ! i) c)"
proof -
  note o = column_level_InrD(4)[OF assms]
  show "columns out = key_cols @ data_cols source target key_cols update_cols"
    by (subst o) simp
  show "length (rows out) = length (fullouter_pairs target source key_cols)"
    by (subst o) simp
  show "cell (columns out) (rows out ! i) k
             = (if src_value source (fullouter_pairs target source key_cols ! i) k \<noteq> Null
                then src_value source (fullouter_pairs target source key_cols ! i) k
                else tgt_value target (fullouter_pairs target source key_cols ! i) k)"
    if "i < length (rows out)" "k \<in> set key_cols"
  proof -
    have i: "i < length (fullouter_pairs target source key_cols)"
      using that(1) by (subst (asm) o) simp
    obtain tr sr where pr: "fullouter_pairs target source key_cols ! i = (tr, sr)"
      by (cases "fullouter_pairs target source key_cols ! i")
    show ?thesis
      using i that(2) by (subst o, subst o) (simp add: cell_append_map pr src_value_def tgt_value_def)
  qed
  show "cell (columns out) (rows out ! i) c
             = (if (if p then src_value source (fullouter_pairs target source key_cols ! i) (hd key_cols)
                    else src_value source (fullouter_pairs target source key_cols ! i) c) \<noteq> Null
                then src_value source (fullouter_pairs target source key_cols ! i) c
                else tgt_value target (fullouter_pairs target source key_cols ! i) c)"
    if "i < length (rows out)" "c \<in> set (data_cols source target key_cols update_cols)"
  proof -
    have i: "i < length (fullouter_pairs target source key_cols)"
      using that(1) by (subst (asm) o) simp
    obtain tr sr where pr: "fullouter_pairs target source key_cols ! i = (tr, sr)"
      by (cases "fullouter_pairs target source key_cols ! i")
    have nk: "c \<notin> set key_cols"
      using that(2) by (rule data_cols_not_key)
    show ?thesis
      using i that(2) nk
      by (subst o, subst o) (simp add: cell_append_map pr src_value_def tgt_value_def chosen_def Let_def)
  qed
qed

lemmas column_ops = scd_type1_column_level_def data_cols_def join_fullouter_def fullouter_pairs_def
  select_joined_def select_expr_of_def chosen_def null_row_def Let_def

lemma column_level_main_example:
  "scd_type1_column_level src_df tgt_df [''id''] None False
       = Inr default_out"
  by (simp add: column_ops frame_ops src_df_def tgt_df_def schema_ex_def default_out_def)

lemma column_level_main_example_override:
  "scd_type1_column_level src_df tgt_df [''id''] None True = Inr override_out"
  by (simp add: column_ops frame_ops src_df_def tgt_df_def schema_ex_def override_out_def)

lemma fullouter_pairs_main_example:
  "fullouter_pairs tgt_df src_df [''id''] =
     [([IntV 1, StrV ''Alice'', IntV 30, StrV ''NY''], [Null, Null, Null, Null]),
      ([IntV 2, StrV ''Bob'', IntV 25, StrV ''CA''], [IntV 2, StrV ''Bobby'', IntV 26, Null]),
      ([IntV 3, StrV ''Charlie'', IntV 40, StrV ''TX''], [Null, Null, Null, Null]),
      ([Null, Null, Null, Null], [IntV 4, StrV ''Diana'', IntV 22, StrV ''WA''])]"
  by (simp add: fullouter_pairs_def null_row_def frame_ops src_df_def tgt_df_def schema_ex_def)


lemma map_of_zip_replicate:
  "map_of (zip xs (replicate (length xs) v)) c = (if c \<in> set xs then Some v else None)"
  by (induction xs) auto

lemma cell_null_row: "cell cols (null_row cols) c = Null"
  by (simp add: cell_def null_row_def map_of_zip_replicate)

lemma filter_unique:
  assumes "distinct (map f ys)"
  shows "filter (\<lambda>y. f y = a) ys = [] \<or> (\<exists>y. filter (\<lambda>y. f y = a) ys = [y])"
  using assms
proof (induction ys)
  case Nil
  then show ?case by simp
next
  case (Cons y ys)
  show ?case
  proof (cases "f y = a")
    case True
    then have "a \<notin> f ` set ys" using Cons.prems by auto
    then have "filter (\<lambda>y. f y = a) ys = []" by (auto simp: filter_empty_conv)
    then show ?thesis using True by simp
  next
    case False
    then show ?thesis using Cons by simp
  qed
qed

lemma keys_of_column_level:
  assumes "scd_type1_column_level source target key_cols update_cols p = Inr out"
  shows "keys_of out key_cols
           = map (coalesced_key source target key_cols) (fullouter_pairs target source key_cols)"
proof -
  note o = column_level_InrD(4)[OF assms]
  show ?thesis
    by (subst o)
       (auto simp: keys_of_def key_of_def project_def cell_append_map coalesced_key_def
          src_value_def tgt_value_def)
qed

lemma coalesced_key_target_only:
  "coalesced_key source target key_cols (x, null_row (columns source)) = key_of target key_cols x"
  by (simp add: coalesced_key_def src_value_def tgt_value_def cell_null_row key_of_def project_def)

lemma coalesced_key_source_only:
  "coalesced_key source target key_cols (null_row (columns target), y) = key_of source key_cols y"
  by (simp add: coalesced_key_def src_value_def tgt_value_def cell_null_row key_of_def project_def)

lemma coalesced_key_matched:
  assumes "key_of source key_cols y = key_of target key_cols x"
  shows "coalesced_key source target key_cols (x, y) = key_of target key_cols x"
proof -
  have "cell (columns source) y k = cell (columns target) x k" if "k \<in> set key_cols" for k
    using assms that by (simp add: key_of_def project_def)
  then show ?thesis
    by (simp add: coalesced_key_def src_value_def tgt_value_def key_of_def project_def)
qed

lemma matched_part:
  assumes DS: "distinct (keys_of source key_cols)"
  shows "map (coalesced_key source target key_cols)
           (let ms = filter (\<lambda>y. keys_match (key_of target key_cols x) (key_of source key_cols y)) (rows source)
            in if ms = [] then [(x, null_row (columns source))] else map (\<lambda>y. (x, y)) ms)
         = [key_of target key_cols x]"
proof (cases "Null \<in> set (key_of target key_cols x)")
  case True
  then have "filter (\<lambda>y. keys_match (key_of target key_cols x) (key_of source key_cols y)) (rows source) = []"
    by (simp add: keys_match_iff)
  then show ?thesis by (simp add: coalesced_key_target_only)
next
  case False
  then have ms: "filter (\<lambda>y. keys_match (key_of target key_cols x) (key_of source key_cols y)) (rows source)
                = filter (\<lambda>y. key_of source key_cols y = key_of target key_cols x) (rows source)"
    by (auto simp: keys_match_iff intro: filter_cong)
  from filter_unique[OF DS[unfolded keys_of_def], of "key_of target key_cols x"]
  show ?thesis
  proof
    assume "filter (\<lambda>y. key_of source key_cols y = key_of target key_cols x) (rows source) = []"
    then show ?thesis by (simp add: ms coalesced_key_target_only)
  next
    assume "\<exists>y. filter (\<lambda>y. key_of source key_cols y = key_of target key_cols x) (rows source) = [y]"
    then obtain y where y: "filter (\<lambda>y. key_of source key_cols y = key_of target key_cols x) (rows source) = [y]"
      by blast
    then have "y \<in> set (filter (\<lambda>y. key_of source key_cols y = key_of target key_cols x) (rows source))"
      by simp
    then have "key_of source key_cols y = key_of target key_cols x" by simp
    then show ?thesis by (simp add: ms y coalesced_key_matched)
  qed
qed

lemma unmatched_part:
  assumes H: "list_all (\<lambda>k. Null \<in> set k \<longrightarrow> k \<notin> set (keys_of target key_cols)) (keys_of source key_cols)"
  shows "map (coalesced_key source target key_cols)
           (map (\<lambda>y. (null_row (columns target), y))
              (filter (\<lambda>y. \<not> list_ex (\<lambda>x. keys_match (key_of target key_cols x) (key_of source key_cols y)) (rows target))
                 (rows source)))
         = filter (\<lambda>k. k \<notin> set (keys_of target key_cols)) (keys_of source key_cols)"
proof -
  have "(\<not> list_ex (\<lambda>x. keys_match (key_of target key_cols x) (key_of source key_cols y)) (rows target))
          = (key_of source key_cols y \<notin> set (keys_of target key_cols))"
    if "y \<in> set (rows source)" for y
    using H that by (fastforce simp: list_ex_iff keys_match_iff keys_of_def list_all_iff image_iff)
  then have "filter (\<lambda>y. \<not> list_ex (\<lambda>x. keys_match (key_of target key_cols x) (key_of source key_cols y)) (rows target))
                 (rows source)
             = filter (\<lambda>y. key_of source key_cols y \<notin> set (keys_of target key_cols)) (rows source)"
    by (auto intro: filter_cong)
  then show ?thesis
    by (simp add: coalesced_key_source_only o_def keys_of_def[of source] filter_map)
qed

lemma coalesced_keys_of_pairs:
  assumes DS: "distinct (keys_of source key_cols)"
      and H: "list_all (\<lambda>k. Null \<in> set k \<longrightarrow> k \<notin> set (keys_of target key_cols)) (keys_of source key_cols)"
  shows "map (coalesced_key source target key_cols) (fullouter_pairs target source key_cols)
         = keys_of target key_cols @ filter (\<lambda>k. k \<notin> set (keys_of target key_cols)) (keys_of source key_cols)"
proof -
  have "map (coalesced_key source target key_cols)
          (concat (map (\<lambda>x. let ms = filter (\<lambda>y. keys_match (key_of target key_cols x) (key_of source key_cols y)) (rows source)
                       in if ms = [] then [(x, null_row (columns source))] else map (\<lambda>y. (x, y)) ms)
               (rows target)))
        = concat (map (\<lambda>x. [key_of target key_cols x]) (rows target))"
    by (simp add: map_concat o_def matched_part[OF DS])
  also have "\<dots> = keys_of target key_cols"
    by (simp add: keys_of_def)
  finally show ?thesis
    unfolding fullouter_pairs_def map_append unmatched_part[OF H] by simp
qed




section \<open>Column-level merge: the two null policies\<close>

text \<open>
  Claim C2. With \<open>prefer_source_when_null = False\<close>, whenever the merge returns a frame, its
  rows are the joined pairs in order, and in each row the value under a data column \<open>c\<close>
  is the source value of \<open>c\<close> when that is not null and the target value otherwise. In
  particular target (1, Bob, CA) merged with source (1, Bobby, null) on \<open>id\<close> gives
  (1, Bobby, CA).
\<close>

theorem column_level_default_policy:
  assumes "scd_type1_column_level source target key_cols update_cols False = Inr out"
  shows "length (rows out) = length (fullouter_pairs target source key_cols)
       \<and> (\<forall>i < length (rows out). \<forall>c \<in> set (data_cols source target key_cols update_cols).
             cell (columns out) (rows out ! i) c
               = (if src_value source (fullouter_pairs target source key_cols ! i) c \<noteq> Null
                  then src_value source (fullouter_pairs target source key_cols ! i) c
                  else tgt_value target (fullouter_pairs target source key_cols ! i) c))
       \<and> scd_type1_column_level bobby_src bob_tgt [''id''] None False
           = Inr \<lparr>columns = [''id'', ''name'', ''state''], rows = [[IntV 1, StrV ''Bobby'', StrV ''CA'']]\<rparr>"
proof -
  have ex: "scd_type1_column_level bobby_src bob_tgt [''id''] None False
           = Inr \<lparr>columns = [''id'', ''name'', ''state''], rows = [[IntV 1, StrV ''Bobby'', StrV ''CA'']]\<rparr>"
    by (simp add: column_ops frame_ops bobby_src_def bob_tgt_def)
  show ?thesis
    using column_level_rows(2)[OF assms] column_level_rows(4)[OF assms] ex by simp
qed

lemma data_cols_main_example: "data_cols src_df tgt_df [''id''] None = [''age'', ''name'', ''state'']"
  by (simp add: data_cols_def src_df_def tgt_df_def schema_ex_def)

theorem column_level_default_policy_witness:
  "scd_type1_column_level src_df tgt_df [''id''] None False = Inr default_out
   \<and> length (rows default_out) = length (fullouter_pairs tgt_df src_df [''id''])
   \<and> src_value src_df (fullouter_pairs tgt_df src_df [''id''] ! 1) ''state'' = Null
   \<and> tgt_value tgt_df (fullouter_pairs tgt_df src_df [''id''] ! 1) ''state'' = StrV ''CA''
   \<and> cell (columns default_out) (rows default_out ! 1) ''state'' = StrV ''CA''
   \<and> cell (columns default_out) (rows default_out ! 1) ''name'' = StrV ''Bobby''"
proof -
  note e = column_level_main_example
  note t = column_level_default_policy[OF e]
  have l: "length (rows default_out) = length (fullouter_pairs tgt_df src_df [''id''])"
    using t by simp
  have i: "Suc 0 < length (rows default_out)"
    by (simp add: default_out_def)
  have sv: "src_value src_df (fullouter_pairs tgt_df src_df [''id''] ! Suc 0) ''state'' = Null"
    unfolding fullouter_pairs_main_example by (simp add: src_value_def cell_def src_df_def schema_ex_def)
  have tv: "tgt_value tgt_df (fullouter_pairs tgt_df src_df [''id''] ! Suc 0) ''state'' = StrV ''CA''"
    unfolding fullouter_pairs_main_example by (simp add: tgt_value_def cell_def tgt_df_def schema_ex_def)
  have sn: "src_value src_df (fullouter_pairs tgt_df src_df [''id''] ! Suc 0) ''name'' = StrV ''Bobby''"
    unfolding fullouter_pairs_main_example by (simp add: src_value_def cell_def src_df_def schema_ex_def)
  have c1: "cell (columns default_out) (rows default_out ! Suc 0) ''state'' = StrV ''CA''"
    using t[THEN conjunct2, THEN conjunct1, rule_format, of "Suc 0" "''state''"] i
    by (simp add: data_cols_main_example sv tv)
  have c2: "cell (columns default_out) (rows default_out ! Suc 0) ''name'' = StrV ''Bobby''"
    using t[THEN conjunct2, THEN conjunct1, rule_format, of "Suc 0" "''name''"] i
    by (simp add: data_cols_main_example sn)
  show ?thesis using e l sv tv c1 c2 by simp
qed

text \<open>
  Claim C3. With \<open>prefer_source_when_null = True\<close>, whenever the merge returns a frame, the
  value under a data column \<open>c\<close> is the source value of \<open>c\<close>, null or not, when the first
  key column of the source side is not null, and the target value when it is null. In
  particular target (1, Bob, CA) merged with source (1, Bobby, null) on \<open>id\<close> gives
  (1, Bobby, null).
\<close>

theorem column_level_null_override:
  assumes "scd_type1_column_level source target key_cols update_cols True = Inr out"
  shows "length (rows out) = length (fullouter_pairs target source key_cols)
       \<and> (\<forall>i < length (rows out). \<forall>c \<in> set (data_cols source target key_cols update_cols).
             cell (columns out) (rows out ! i) c
               = (if src_value source (fullouter_pairs target source key_cols ! i) (hd key_cols) \<noteq> Null
                  then src_value source (fullouter_pairs target source key_cols ! i) c
                  else tgt_value target (fullouter_pairs target source key_cols ! i) c))
       \<and> scd_type1_column_level bobby_src bob_tgt [''id''] None True
           = Inr \<lparr>columns = [''id'', ''name'', ''state''], rows = [[IntV 1, StrV ''Bobby'', Null]]\<rparr>"
proof -
  have ex: "scd_type1_column_level bobby_src bob_tgt [''id''] None True
           = Inr \<lparr>columns = [''id'', ''name'', ''state''], rows = [[IntV 1, StrV ''Bobby'', Null]]\<rparr>"
    by (simp add: column_ops frame_ops bobby_src_def bob_tgt_def)
  show ?thesis
    using column_level_rows(2)[OF assms] column_level_rows(4)[OF assms] ex by simp
qed

theorem column_level_null_override_witness:
  "scd_type1_column_level src_df tgt_df [''id''] None True = Inr override_out
   \<and> length (rows override_out) = length (fullouter_pairs tgt_df src_df [''id''])
   \<and> src_value src_df (fullouter_pairs tgt_df src_df [''id''] ! 1) (hd [''id'']) = IntV 2
   \<and> src_value src_df (fullouter_pairs tgt_df src_df [''id''] ! 1) ''state'' = Null
   \<and> cell (columns override_out) (rows override_out ! 1) ''state'' = Null
   \<and> src_value src_df (fullouter_pairs tgt_df src_df [''id''] ! 0) (hd [''id'']) = Null
   \<and> cell (columns override_out) (rows override_out ! 0) ''state'' = StrV ''NY''"
proof -
  note e = column_level_main_example_override
  note t = column_level_null_override[OF e]
  have l: "length (rows override_out) = length (fullouter_pairs tgt_df src_df [''id''])"
    using t by simp
  have i: "Suc 0 < length (rows override_out)" "0 < length (rows override_out)"
    by (simp_all add: override_out_def)
  have k1: "src_value src_df (fullouter_pairs tgt_df src_df [''id''] ! Suc 0) ''id'' = IntV 2"
    unfolding fullouter_pairs_main_example by (simp add: src_value_def cell_def src_df_def schema_ex_def)
  have s1: "src_value src_df (fullouter_pairs tgt_df src_df [''id''] ! Suc 0) ''state'' = Null"
    unfolding fullouter_pairs_main_example by (simp add: src_value_def cell_def src_df_def schema_ex_def)
  have k0: "src_value src_df (fullouter_pairs tgt_df src_df [''id''] ! 0) ''id'' = Null"
    unfolding fullouter_pairs_main_example by (simp add: src_value_def cell_def src_df_def schema_ex_def)
  have t0: "tgt_value tgt_df (fullouter_pairs tgt_df src_df [''id''] ! 0) ''state'' = StrV ''NY''"
    unfolding fullouter_pairs_main_example by (simp add: tgt_value_def cell_def tgt_df_def schema_ex_def)
  have c1: "cell (columns override_out) (rows override_out ! Suc 0) ''state'' = Null"
    using t[THEN conjunct2, THEN conjunct1, rule_format, of "Suc 0" "''state''"] i
    by (simp add: data_cols_main_example k1 s1)
  have c0: "cell (columns override_out) (rows override_out ! 0) ''state'' = StrV ''NY''"
    using t[THEN conjunct2, THEN conjunct1, rule_format, of 0 "''state''"] i
    by (simp add: data_cols_main_example k0 t0)
  show ?thesis using e l k1 s1 c1 k0 c0 by simp
qed

section \<open>Column-level merge: one row per key\<close>

text \<open>
  Claim C4, as the code has it. When the keys are unique within source and within target and
  no key that holds a null occurs in both inputs, the output of the column-level merge has
  exactly one row per key of either input, and under each key column the output value is
  the source value when that is not null and the target value otherwise.
\<close>

theorem column_level_one_row_per_key:
  assumes R: "scd_type1_column_level source target key_cols update_cols p = Inr out"
      and DS: "distinct (keys_of source key_cols)" and DT: "distinct (keys_of target key_cols)"
      and H: "list_all (\<lambda>k. Null \<in> set k \<longrightarrow> k \<notin> set (keys_of target key_cols)) (keys_of source key_cols)"
  shows "distinct (keys_of out key_cols)
       \<and> set (keys_of out key_cols) = set (keys_of source key_cols) \<union> set (keys_of target key_cols)
       \<and> (\<forall>i < length (rows out). \<forall>k \<in> set key_cols.
             cell (columns out) (rows out ! i) k
               = (if src_value source (fullouter_pairs target source key_cols ! i) k \<noteq> Null
                  then src_value source (fullouter_pairs target source key_cols ! i) k
                  else tgt_value target (fullouter_pairs target source key_cols ! i) k))"
proof -
  have ks: "keys_of out key_cols
              = keys_of target key_cols @ filter (\<lambda>k. k \<notin> set (keys_of target key_cols)) (keys_of source key_cols)"
    by (simp add: keys_of_column_level[OF R] coalesced_keys_of_pairs[OF DS H])
  have d: "distinct (keys_of out key_cols)"
    using DS DT by (auto simp: ks)
  have s: "set (keys_of out key_cols) = set (keys_of source key_cols) \<union> set (keys_of target key_cols)"
    by (auto simp: ks)
  show ?thesis
    using d s column_level_rows(3)[OF R] by simp
qed

theorem column_level_one_row_per_key_witness:
  "scd_type1_column_level src_df tgt_df [''id''] None False = Inr default_out
   \<and> distinct (keys_of src_df [''id'']) \<and> distinct (keys_of tgt_df [''id''])
   \<and> list_all (\<lambda>k. Null \<in> set k \<longrightarrow> k \<notin> set (keys_of tgt_df [''id''])) (keys_of src_df [''id''])
   \<and> distinct (keys_of default_out [''id''])
   \<and> set (keys_of default_out [''id'']) = {[IntV 1], [IntV 2], [IntV 3], [IntV 4]}"
proof -
  note e = column_level_main_example
  have ks: "keys_of src_df [''id''] = [[IntV 2], [IntV 4]]"
    by (simp add: frame_ops src_df_def schema_ex_def)
  have kt: "keys_of tgt_df [''id''] = [[IntV 1], [IntV 2], [IntV 3]]"
    by (simp add: frame_ops tgt_df_def schema_ex_def)
  have h: "distinct (keys_of src_df [''id''])" "distinct (keys_of tgt_df [''id''])"
    "list_all (\<lambda>k. Null \<in> set k \<longrightarrow> k \<notin> set (keys_of tgt_df [''id''])) (keys_of src_df [''id''])"
    by (simp_all add: ks kt)
  note t = column_level_one_row_per_key[OF e h]
  have s: "set (keys_of default_out [''id'']) = {[IntV 1], [IntV 2], [IntV 3], [IntV 4]}"
    using t by (auto simp: ks kt)
  show ?thesis using e h t s by simp
qed

text \<open>
  Two inputs with the single key null, unique on each side: the output has two rows for it,
  since the join never matches a null key.
\<close>

theorem column_level_null_keys_two_rows:
  "scd_type1_column_level null_key_source null_key_target [''id''] None False
       = Inr \<lparr>columns = [''id'', ''name''], rows = [[Null, StrV ''t''], [Null, StrV ''s'']]\<rparr>
   \<and> distinct (keys_of null_key_source [''id''])
   \<and> distinct (keys_of null_key_target [''id''])
   \<and> keys_of \<lparr>columns = [''id'', ''name''], rows = [[Null, StrV ''t''], [Null, StrV ''s'']]\<rparr> [''id'']
       = [[Null], [Null]]
   \<and> \<not> distinct [[Null :: val], [Null]]"
  by (simp add: column_ops frame_ops null_key_source_def null_key_target_def)








section \<open>Column-level merge: restricted \<open>update_cols\<close>\<close>




section \<open>The audit columns\<close>

lemma row_hash_eq_record_hash: "row_hash sha256 row = record_hash sha256 row"
  by (simp add: row_hash_def record_hash_def)

lemma add_audit_columns_eq:
  assumes "df < length h"
  shows "add_audit_columns sha256 now h df source_file
           = (h @ [staging_frame sha256 now (h ! df) source_file], length h)"
  using assms
  by (simp add: add_audit_columns_def copy_df_def update_at_def staging_frame_def Let_def
      nth_append row_hash_eq_record_hash)

lemma pd_columns_setitem: "set (pd_columns (setitem df c vs)) = insert c (set (pd_columns df))"
  by (auto simp: setitem_def)

lemma pd_columns_staging_frame:
  "set (pd_columns (staging_frame sha256 now df name))
     = {''ingest_ts'', ''source_file'', ''record_hash''} \<union> set (pd_columns df)"
  by (auto simp: staging_frame_def Let_def setitem_scalar_def pd_columns_setitem)

text \<open>
  Claim C9. \<open>add_audit_columns\<close> leaves the frame it is given, and every other frame of the
  heap, as it was: it returns a frame at a new address, and that frame has the three audit
  columns \<open>ingest_ts\<close>, \<open>source_file\<close> and \<open>record_hash\<close> beside the columns of the
  input.
\<close>

theorem add_audit_columns_keeps_input:
  assumes "df < length h"
  shows "case add_audit_columns sha256 now h df source_file of
           (h', out) \<Rightarrow>
             h' ! df = h ! df \<and> out \<noteq> df \<and> length h \<le> out \<and> out < length h'
           \<and> take (length h) h' = h
           \<and> list_all (\<lambda>c. c \<in> set (pd_columns (h' ! out))) [''ingest_ts'', ''source_file'', ''record_hash'']
           \<and> list_all (\<lambda>c. c \<in> set (pd_columns (h' ! out))) (pd_columns (h ! df))"
  using assms
  by (auto simp: add_audit_columns_eq nth_append pd_columns_staging_frame list_all_iff)

theorem add_audit_columns_keeps_input_witness:
  "(0::nat) < length [test_df]
   \<and> (case add_audit_columns (\<lambda>s. 0) ''2024-01-01T00:00:00'' [test_df] 0 ''file.csv'' of
        (h', out) \<Rightarrow> h' ! 0 = test_df \<and> out = 1 \<and> length h' = 2
          \<and> pd_columns (h' ! out) = [''a'', ''b'', ''ingest_ts'', ''source_file'', ''record_hash''])"
proof -
  have h: "(0::nat) < length [test_df]" by simp
  have e: "add_audit_columns (\<lambda>s. 0) ''2024-01-01T00:00:00'' [test_df] 0 ''file.csv''
             = ([test_df, staging_frame (\<lambda>s. 0) ''2024-01-01T00:00:00'' test_df ''file.csv''], 1)"
    by (simp add: add_audit_columns_eq)
  have c: "pd_columns (staging_frame (\<lambda>s. 0) ''2024-01-01T00:00:00'' test_df ''file.csv'')
             = [''a'', ''b'', ''ingest_ts'', ''source_file'', ''record_hash'']"
    by (simp add: staging_frame_def setitem_scalar_def setitem_def test_df_def Let_def)
  show ?thesis
    using add_audit_columns_keeps_input[OF h, of "\<lambda>s. 0" "''2024-01-01T00:00:00''" "''file.csv''"] h
    by (simp add: e c)
qed













end
